theory Spec2Isabelle
  imports Complex_Main
begin

section \<open>Thermal systems (chap07): the data model\<close>

text \<open>
  The notebook works with Python numbers. They are modelled as exact real numbers, where the
  code computes in binary floating point. Identities of expressions carry over as they are.
  An order between two computed values carries over only where the values are not nearly
  equal, so the statements below that compare temperatures are non-strict and keep away
  from the parameter values at which rounding would decide the comparison.

  A \<open>State\<close> object holds one variable, \<open>temp\<close>. A \<open>System\<close> object holds the parameters
  that \<open>make_system\<close> gives it; \<open>run_simulation\<close> later attaches the attribute \<open>results\<close>,
  so \<open>results\<close> is optional: \<open>None\<close> stands for "the attribute is absent"
  (\<open>hasattr(system, 'results')\<close> is false).

  A \<open>TimeFrame\<close> with the single column \<open>temp\<close> is an association list from row labels
  (times) to states, in the order the rows were added.
\<close>

record State =
  temp :: real

type_synonym TimeFrame = "(real \<times> State) list"

record System =
  init :: State
  volume :: real
  r :: real
  T_env :: real
  t0 :: real
  t_end :: real
  dt :: real
  results :: "TimeFrame option"

datatype error =
    AssertionError | KeyError | ZeroDivisionError | ValueError
  | NonConvergence | StalledSearch

text \<open>\<open>frame.loc[t] = s\<close>: overwrite the row labelled \<open>t\<close>, or append a new row.\<close>

fun loc_set :: "TimeFrame \<Rightarrow> real \<Rightarrow> State \<Rightarrow> TimeFrame" where
  "loc_set [] t s = [(t, s)]"
| "loc_set (p # ps) t s = (if fst p = t then (t, s) # ps else p # loc_set ps t s)"

text \<open>\<open>frame.loc[t]\<close>: the row labelled \<open>t\<close>; a missing label raises KeyError.\<close>

fun loc_get :: "TimeFrame \<Rightarrow> real \<Rightarrow> error + State" where
  "loc_get [] t = Inl KeyError"
| "loc_get (p # ps) t = (if fst p = t then Inr (snd p) else loc_get ps t)"

text \<open>
  Modelled from the spec: \<open>linrange\<close> belongs to the \<open>modsim\<close> library, which is not among
  the sources. The spec fixes the time grid of a run: an index-based grid that starts at the
  start time, is spaced by the step size, and makes the simulator take
  \<open>ceil((t_end - t0) / dt)\<close> steps. \<open>run_simulation\<close> calls \<open>linrange(t0, t_end - dt, dt)\<close>,
  so \<open>linrange(start, stop, step)\<close> has \<open>ceil((stop - start) / step) + 1\<close> points
  \<open>start + i * step\<close>. The spec gives a grid to valid parameters only and says that a run
  with other parameters fails: a zero step has no quotient, and a negative number of points
  is no grid. Both are errors of \<open>linrange\<close> here. No statement below depends on which
  error it is.
\<close>

definition linrange :: "real \<Rightarrow> real \<Rightarrow> real \<Rightarrow> error + real list" where
  "linrange start stop step =
     (if step = 0 then Inl ZeroDivisionError
      else
        let n = \<lceil>(stop - start) / step\<rceil> + 1
        in if n < 0 then Inl ValueError
           else Inr (map (\<lambda>i. start + real i * step) [0 ..< nat n]))"

section \<open>The notebook's functions\<close>

text \<open>
  \<^verbatim>\<open>
  def update(state, system):
      unpack(system)
      T = state.temp
      T += -r * (T - T_env) * dt
      return State(temp=T)
  \<close>
\<close>

definition update :: "State \<Rightarrow> System \<Rightarrow> State" where
  "update state system =
     (let T = temp state;
          T = T + - r system * (T - T_env system) * dt system
      in \<lparr>temp = T\<rparr>)"

text \<open>
  \<^verbatim>\<open>
  def run_simulation(system, update_func):
      unpack(system)
      frame = TimeFrame(columns=init.index)
      frame.loc[t0] = init
      ts = linrange(t0, t_end-dt, dt)
      for t in ts:
          frame.loc[t+dt] = update_func(frame.loc[t], system)
      system.results = frame
  \<close>
  The loop is \<open>run_loop\<close>; it stops at the first row that is missing. The function returns
  nothing: its effect is the assignment to \<open>system.results\<close>, so the model returns the
  system object as it is after the call.
\<close>

fun run_loop :: "System \<Rightarrow> (State \<Rightarrow> System \<Rightarrow> State) \<Rightarrow> real list \<Rightarrow> TimeFrame
                   \<Rightarrow> error + TimeFrame" where
  "run_loop system update_func [] frame = Inr frame"
| "run_loop system update_func (t # ts) frame =
     (case loc_get frame t of
        Inl e \<Rightarrow> Inl e
      | Inr row \<Rightarrow> run_loop system update_func ts
                    (loc_set frame (t + dt system) (update_func row system)))"

definition run_simulation :: "System \<Rightarrow> (State \<Rightarrow> System \<Rightarrow> State) \<Rightarrow> error + System" where
  "run_simulation system update_func =
     (let frame = loc_set [] (t0 system) (init system) in
      case linrange (t0 system) (t_end system - dt system) (dt system) of
        Inl e \<Rightarrow> Inl e
      | Inr ts \<Rightarrow>
          (case run_loop system update_func ts frame of
             Inl e \<Rightarrow> Inl e
           | Inr frame' \<Rightarrow> Inr (system\<lparr>results := Some frame'\<rparr>)))"

text \<open>
  \<^verbatim>\<open>
  def final_temp(system):
      if hasattr(system, 'results'):
          return system.results.temp[system.t_end]
      else:
          return system.init.temp
  \<close>
\<close>

definition final_temp :: "System \<Rightarrow> error + real" where
  "final_temp system =
     (case results system of
        Some frame \<Rightarrow>
          (case loc_get frame (t_end system) of
             Inl e \<Rightarrow> Inl e
           | Inr row \<Rightarrow> Inr (temp row))
      | None \<Rightarrow> Inr (temp (init system)))"

text \<open>
  \<^verbatim>\<open>
  def make_system(T_init=90, r=0.01, volume=300, t_end=30):
      init = State(temp=T_init)
      system = System(init=init, volume=volume, r=r, T_env=22, t0=0, t_end=t_end, dt=1)
      return system
  \<close>
  The defaults are constants of their own; a caller that leaves an argument out passes the
  constant.
\<close>

definition default_T_init :: real where "default_T_init = 90"
definition default_r :: real where "default_r = 1 / 100"
definition default_volume :: real where "default_volume = 300"
definition default_t_end :: real where "default_t_end = 30"

definition make_system :: "real \<Rightarrow> real \<Rightarrow> real \<Rightarrow> real \<Rightarrow> System" where
  "make_system T_init r' volume' t_end' =
     (let init' = \<lparr>temp = T_init\<rparr>
      in \<lparr>init = init', volume = volume', r = r', T_env = 22, t0 = 0,
          t_end = t_end', dt = 1, results = None\<rparr>)"

text \<open>
  \<^verbatim>\<open>
  def error_func1(r):
      system = make_system(T_init=90, r=r, volume=300, t_end=30)
      run_simulation(system, update)
      return final_temp(system) - 70
  \<close>
\<close>

definition error_func1 :: "real \<Rightarrow> error + real" where
  "error_func1 r' =
     (case run_simulation (make_system 90 r' 300 30) update of
        Inl e \<Rightarrow> Inl e
      | Inr system \<Rightarrow>
          (case final_temp system of
             Inl e \<Rightarrow> Inl e
           | Inr T \<Rightarrow> Inr (T - 70)))"

text \<open>
  Modelled from the spec: \<open>fsolve\<close> is the root finder of the \<open>modsim\<close> library (a
  wrapper of a numerical solver), which is not among the sources. The spec describes the
  calibrator's solver as a general-purpose one (bisection, secant or Newton-type) that takes
  an objective and an initial guess or bracket, evaluates the objective repeatedly, and
  converges when \<open>|error(param)| < epsilon\<close>; it fails with NonConvergence when the
  iteration budget is used up, and with StalledSearch when no progress can be measured.
  The model is bisection on a bracket \<open>[lo, hi]\<close>: it returns the midpoint as soon as the
  objective there is within \<open>eps\<close> of zero, continues in the half across which the
  objective changes sign (the lower half first), and stalls when neither half shows a
  sign change. An error of
  the objective is passed on.
\<close>

fun fsolve :: "(real \<Rightarrow> error + real) \<Rightarrow> real \<Rightarrow> real \<Rightarrow> real \<Rightarrow> nat \<Rightarrow> error + real" where
  "fsolve func lo hi eps 0 = Inl NonConvergence"
| "fsolve func lo hi eps (Suc budget) =
     (let mid = (lo + hi) / 2 in
      case func mid of
        Inl e \<Rightarrow> Inl e
      | Inr e_mid \<Rightarrow>
          if \<bar>e_mid\<bar> < eps then Inr mid
          else
            (case func lo of
               Inl e \<Rightarrow> Inl e
             | Inr e_lo \<Rightarrow>
                 if (e_lo < 0) \<noteq> (e_mid < 0) then fsolve func lo mid eps budget
                 else
                   (case func hi of
                      Inl e \<Rightarrow> Inl e
                    | Inr e_hi \<Rightarrow>
                        if (e_mid < 0) \<noteq> (e_hi < 0) then fsolve func mid hi eps budget
                        else Inl StalledSearch)))"

text \<open>
  \<^verbatim>\<open>
  def mix(s1, s2):
      assert s1.t_end == s2.t_end
      volume = s1.volume + s2.volume
      temp = (s1.volume * final_temp(s1) +
              s2.volume * final_temp(s2)) / volume
      mixture = make_system(T_init=temp, volume=volume, r=s1.r)
      return mixture
  \<close>
  A total volume of zero has no quotient. The code divides numpy scalars there and returns
  a mixture whose temperature is not a number; the reals have no such value, so the model
  marks the case with \<open>ZeroDivisionError\<close>. No statement below is about that case.
\<close>

definition mix :: "System \<Rightarrow> System \<Rightarrow> error + System" where
  "mix s1 s2 =
     (if t_end s1 \<noteq> t_end s2 then Inl AssertionError
      else
        let volume' = volume s1 + volume s2 in
        case final_temp s1 of
          Inl e \<Rightarrow> Inl e
        | Inr T1 \<Rightarrow>
            (case final_temp s2 of
               Inl e \<Rightarrow> Inl e
             | Inr T2 \<Rightarrow>
                 if volume' = 0 then Inl ZeroDivisionError
                 else
                   let temp' = (volume s1 * T1 + volume s2 * T2) / volume'
                   in Inr (make_system temp' (r s1) volume' default_t_end)))"

text \<open>
  \<^verbatim>\<open>
  def run_and_mix(t_add, t_total=30):
      coffee = make_system(T_init=90, t_end=t_add, r=r_coffee, volume=300)
      run_simulation(coffee, update)
      milk = make_system(T_init=5, t_end=t_add, r=r_milk, volume=50)
      run_simulation(milk, update)
      mixture = mix(coffee, milk)
      mixture.t_end = t_total - t_add
      run_simulation(mixture, update)
      return final_temp(mixture)
  \<close>
  \<open>r_coffee\<close> and \<open>r_milk\<close> are globals of the notebook, computed by the root finder;
  they are parameters here.
\<close>

definition run_and_mix :: "real \<Rightarrow> real \<Rightarrow> real \<Rightarrow> real \<Rightarrow> error + real" where
  "run_and_mix r_coffee r_milk t_add t_total =
     (case run_simulation (make_system 90 r_coffee 300 t_add) update of
        Inl e \<Rightarrow> Inl e
      | Inr coffee \<Rightarrow>
          (case run_simulation (make_system 5 r_milk 50 t_add) update of
             Inl e \<Rightarrow> Inl e
           | Inr milk \<Rightarrow>
               (case mix coffee milk of
                  Inl e \<Rightarrow> Inl e
                | Inr mixture \<Rightarrow>
                    (case run_simulation (mixture\<lparr>t_end := t_total - t_add\<rparr>) update of
                       Inl e \<Rightarrow> Inl e
                     | Inr mixture' \<Rightarrow> final_temp mixture'))))"

section \<open>Properties of a trajectory\<close>

text \<open>
  The number of steps of a run, and the frame a run builds in closed form: row \<open>i\<close> is
  labelled \<open>t0 + i * dt\<close> and holds the initial state after \<open>i\<close> applications of the
  update function.
\<close>

definition n_steps :: "System \<Rightarrow> nat" where
  "n_steps system = nat \<lceil>(t_end system - t0 system) / dt system\<rceil>"

definition trajectory :: "System \<Rightarrow> (State \<Rightarrow> System \<Rightarrow> State) \<Rightarrow> nat \<Rightarrow> TimeFrame" where
  "trajectory system update_func n =
     map (\<lambda>i. (t0 system + real i * dt system,
               ((\<lambda>s. update_func s system) ^^ i) (init system)))
         [0 ..< Suc n]"



section \<open>The frame operations\<close>

lemma loc_set_fresh: "t \<notin> fst ` set frame \<Longrightarrow> loc_set frame t s = frame @ [(t, s)]"
  by (induction frame) auto

lemma loc_get_map:
  "inj_on k (set xs) \<Longrightarrow> j \<in> set xs \<Longrightarrow> loc_get (map (\<lambda>i. (k i, v i)) xs) (k j) = Inr (v j)"
  by (induction xs) (auto simp: inj_on_def)

lemma loc_get_error: "loc_get frame t = Inl e \<Longrightarrow> e = KeyError"
  by (induction frame) (auto split: if_splits)

lemma final_temp_error: "final_temp system = Inl e \<Longrightarrow> e = KeyError"
  by (auto simp: final_temp_def split: option.splits sum.splits dest: loc_get_error)

lemma grid_inj: "step \<noteq> 0 \<Longrightarrow> inj_on (\<lambda>i. start + real i * step) A"
  by (auto simp: inj_on_def)

section \<open>The loop in closed form\<close>



lemma trajectory_Suc:
  "trajectory system f (Suc n)
     = trajectory system f n
       @ [(t0 system + real (Suc n) * dt system, ((\<lambda>s. f s system) ^^ Suc n) (init system))]"
  by (simp add: trajectory_def)

lemma loc_get_trajectory:
  assumes "dt system \<noteq> 0" "i \<le> n"
  shows "loc_get (trajectory system f n) (t0 system + real i * dt system)
           = Inr (((\<lambda>s. f s system) ^^ i) (init system))"
proof -
  have "inj_on (\<lambda>i. t0 system + real i * dt system) (set [0 ..< Suc n])"
    using assms(1) by (rule grid_inj)
  moreover have "i \<in> set [0 ..< Suc n]"
    using assms(2) by auto
  ultimately show ?thesis
    unfolding trajectory_def by (rule loc_get_map)
qed

lemma loc_set_trajectory:
  assumes "dt system \<noteq> 0"
  shows "loc_set (trajectory system f n) (t0 system + real n * dt system + dt system)
           (f (((\<lambda>s. f s system) ^^ n) (init system)) system)
         = trajectory system f (Suc n)"
proof -
  have eq: "t0 system + real n * dt system + dt system = t0 system + real (Suc n) * dt system"
    by (simp add: algebra_simps)
  have "t0 system + real (Suc n) * dt system \<notin> fst ` set (trajectory system f n)"
    using assms by (auto simp: trajectory_def)
  then show ?thesis
    unfolding eq by (simp add: loc_set_fresh trajectory_Suc)
qed

text \<open>
  The loop invariant: before the iteration for grid index \<open>k\<close> the frame is the trajectory
  up to \<open>k\<close>, so the row the iteration reads is there and the row it writes is new.
\<close>

lemma run_loop_trajectory:
  assumes "dt system \<noteq> 0"
  shows "k \<le> n \<Longrightarrow>
         run_loop system f (map (\<lambda>i. t0 system + real i * dt system) [k ..< n])
                  (trajectory system f k)
           = Inr (trajectory system f n)"
proof (induction "n - k" arbitrary: k)
  case 0
  then show ?case by simp
next
  case (Suc d)
  then have lt: "k < n" and d: "d = n - Suc k" and le: "Suc k \<le> n" by auto
  have "run_loop system f (map (\<lambda>i. t0 system + real i * dt system) [k ..< n])
                  (trajectory system f k)
        = run_loop system f (map (\<lambda>i. t0 system + real i * dt system) [Suc k ..< n])
                  (trajectory system f (Suc k))"
    using lt assms by (simp add: upt_conv_Cons loc_get_trajectory loc_set_trajectory)
  also have "\<dots> = Inr (trajectory system f n)"
    using Suc.hyps(1) [OF d le] .
  finally show ?case .
qed

lemma linrange_run:
  assumes "dt system \<noteq> 0" "0 \<le> \<lceil>(t_end system - t0 system) / dt system\<rceil>"
  shows "linrange (t0 system) (t_end system - dt system) (dt system)
           = Inr (map (\<lambda>i. t0 system + real i * dt system) [0 ..< n_steps system])"
proof -
  have "(t_end system - dt system - t0 system) / dt system
          = (t_end system - t0 system) / dt system - 1"
    using assms(1) by (simp add: field_simps)
  then have "\<lceil>(t_end system - dt system - t0 system) / dt system\<rceil> + 1
               = \<lceil>(t_end system - t0 system) / dt system\<rceil>"
    by simp
  then show ?thesis
    using assms by (simp add: linrange_def n_steps_def Let_def)
qed

lemma run_simulation_eq:
  assumes "dt system \<noteq> 0" "0 \<le> \<lceil>(t_end system - t0 system) / dt system\<rceil>"
  shows "run_simulation system f
           = Inr (system\<lparr>results := Some (trajectory system f (n_steps system))\<rparr>)"
proof -
  have "loc_set [] (t0 system) (init system) = trajectory system f 0"
    by (simp add: trajectory_def)
  then show ?thesis
    using run_loop_trajectory [OF assms(1), of 0 "n_steps system" f]
    by (simp add: run_simulation_def linrange_run [OF assms])
qed

text \<open>A valid system: the step is positive and the end time is not before the start.\<close>

lemma run_simulation_valid:
  assumes "0 < dt system" "t0 system \<le> t_end system"
  shows "run_simulation system f
           = Inr (system\<lparr>results := Some (trajectory system f (n_steps system))\<rparr>)"
proof (rule run_simulation_eq)
  show "dt system \<noteq> 0"
    using assms(1) by simp
  have "0 \<le> (t_end system - t0 system) / dt system"
    using assms by simp
  then show "0 \<le> \<lceil>(t_end system - t0 system) / dt system\<rceil>"
    by (simp add: zero_le_ceiling)
qed

text \<open>A run over a whole number of steps, of either sign.\<close>

lemma run_simulation_whole_steps:
  assumes "dt system \<noteq> 0" "t_end system = t0 system + real n * dt system"
  shows "run_simulation system f = Inr (system\<lparr>results := Some (trajectory system f n)\<rparr>)"
proof -
  have ratio: "(t_end system - t0 system) / dt system = real n"
    using assms by simp
  have n: "n_steps system = n"
    by (simp add: n_steps_def ratio)
  have "0 \<le> \<lceil>(t_end system - t0 system) / dt system\<rceil>"
    by (simp add: ratio)
  then show ?thesis
    using run_simulation_eq [OF assms(1), of f] by (simp add: n)
qed

section \<open>The update rule along a trajectory\<close>






text \<open>
  After \<open>i\<close> steps the distance to the environment temperature has been multiplied by
  \<open>(1 - r * dt) ^ i\<close>.
\<close>

lemma update_funpow_temp:
  "temp (((\<lambda>s. update s system) ^^ i) s) - T_env system
     = (1 - r system * dt system) ^ i * (temp s - T_env system)"
proof (induction i)
  case 0
  show ?case by simp
next
  case (Suc i)
  have "temp (update x system) - T_env system
          = (1 - r system * dt system) * (temp x - T_env system)" for x
    by (simp add: update_def Let_def algebra_simps)
  then show ?case
    using Suc.IH by simp
qed

lemma final_temp_run_simulation:
  assumes "dt system \<noteq> 0" "t_end system = t0 system + real n * dt system"
    and run: "run_simulation system update = Inr system'"
  shows "final_temp system'
           = Inr (T_env system
                  + (1 - r system * dt system) ^ n * (temp (init system) - T_env system))"
proof -
  have sys': "system' = system\<lparr>results := Some (trajectory system update n)\<rparr>"
    using run run_simulation_whole_steps [OF assms(1,2), of update] by simp
  have "loc_get (trajectory system update n) (t_end system)
          = Inr (((\<lambda>s. update s system) ^^ n) (init system))"
    unfolding assms(2) using assms(1) by (rule loc_get_trajectory) simp
  moreover have "temp (((\<lambda>s. update s system) ^^ n) (init system))
          = T_env system + (1 - r system * dt system) ^ n * (temp (init system) - T_env system)"
    using update_funpow_temp [where system = system and i = n and s = "init system"] by simp
  ultimately show ?thesis
    by (simp add: sys' final_temp_def)
qed

text \<open>
  The objective the root finder is given: thirty steps of size one from 90 toward 22,
  compared with 70.
\<close>

lemma error_func1_run:
  "\<exists>system. run_simulation (make_system 90 r' 300 30) update = Inr system
     \<and> final_temp system = Inr (22 + (1 - r') ^ 30 * 68)"
proof -
  let ?s = "make_system 90 r' 300 30"
  have dt: "dt ?s \<noteq> 0" and te: "t_end ?s = t0 ?s + real (30::nat) * dt ?s"
    by (simp_all add: make_system_def)
  obtain s' where run: "run_simulation ?s update = Inr s'"
    using run_simulation_whole_steps [OF dt te] by simp
  have "final_temp s' = Inr (T_env ?s + (1 - r ?s * dt ?s) ^ 30 * (temp (init ?s) - T_env ?s))"
    using final_temp_run_simulation [OF dt te run] .
  then have "final_temp s' = Inr (22 + (1 - r') ^ 30 * 68)"
    by (simp add: make_system_def)
  then show ?thesis
    using run by blast
qed

lemma error_func1_eq: "error_func1 r' = Inr (68 * (1 - r') ^ 30 - 48)"
proof -
  obtain s' where "run_simulation (make_system 90 r' 300 30) update = Inr s'"
    and "final_temp s' = Inr (22 + (1 - r') ^ 30 * 68)"
    using error_func1_run by blast
  then show ?thesis
    by (simp add: error_func1_def)
qed

text \<open>Whatever the solver returns, the objective there is within the tolerance.\<close>

lemma fsolve_tolerance:
  "fsolve func lo hi eps budget = Inr x \<Longrightarrow> \<exists>e. func x = Inr e \<and> \<bar>e\<bar> < eps"
proof (induction budget arbitrary: lo hi)
  case 0
  then show ?case by simp
next
  case (Suc budget)
  then show ?case
    by (auto simp: Let_def split: sum.splits if_splits)
qed

text \<open>One iteration of the solver, for a budget written as a numeral.\<close>

lemma fsolve_numeral:
  "fsolve func lo hi eps (numeral k) =
     (let mid = (lo + hi) / 2 in
      case func mid of
        Inl e \<Rightarrow> Inl e
      | Inr e_mid \<Rightarrow>
          if \<bar>e_mid\<bar> < eps then Inr mid
          else
            (case func lo of
               Inl e \<Rightarrow> Inl e
             | Inr e_lo \<Rightarrow>
                 if (e_lo < 0) \<noteq> (e_mid < 0) then fsolve func lo mid eps (pred_numeral k)
                 else
                   (case func hi of
                      Inl e \<Rightarrow> Inl e
                    | Inr e_hi \<Rightarrow>
                        if (e_mid < 0) \<noteq> (e_hi < 0) then fsolve func mid hi eps (pred_numeral k)
                        else Inl StalledSearch)))"
  by (simp add: numeral_eq_Suc)

section \<open>The simulator and its argument\<close>







section \<open>The update rule\<close>

text \<open>
  C3: one application of the update rule to a state with temperature \<open>T\<close>, in a system with
  rate constant \<open>r\<close>, environment temperature \<open>T_env\<close> and step size \<open>dt\<close>, returns a state
  whose temperature is exactly \<open>T + (-r * (T - T_env) * dt)\<close>.
\<close>

theorem update_temp:
  "temp (update state system)
     = temp state + (- r system * (temp state - T_env system) * dt system)"
  by (simp add: update_def Let_def)

section \<open>Trajectories of the update rule\<close>






text \<open>
  C8: for every valid system with \<open>t_end = t0\<close> and every update function, the run stores
  a frame of exactly one row: the initial state at \<open>t0\<close>.
\<close>

theorem run_simulation_single_point:
  assumes "0 < dt system" "t_end system = t0 system"
  shows "run_simulation system update_func
           = Inr (system\<lparr>results := Some [(t0 system, init system)]\<rparr>)"
  using assms by (simp add: run_simulation_valid n_steps_def trajectory_def)

theorem run_simulation_single_point_witness:
  "0 < dt (make_system 90 (1/100) 300 0)
   \<and> t_end (make_system 90 (1/100) 300 0) = t0 (make_system 90 (1/100) 300 0)
   \<and> run_simulation (make_system 90 (1/100) 300 0) update
       = Inr ((make_system 90 (1/100) 300 0)\<lparr>results := Some [(0, \<lparr>temp = 90\<rparr>)]\<rparr>)"
  using run_simulation_single_point [of "make_system 90 (1/100) 300 0" update]
  by (simp add: make_system_def)

section \<open>Calibration\<close>

text \<open>
  C9: whatever parameter value the calibrator returns for the objective \<open>error_func1\<close>
  (target 70) with tolerance \<open>eps\<close>, running the simulator with that value completes, and
  the final temperature of the run is within \<open>eps\<close> of the target.
\<close>

theorem fsolve_round_trip:
  assumes "fsolve error_func1 lo hi eps budget = Inr r'"
  shows "\<exists>system T. run_simulation (make_system 90 r' 300 30) update = Inr system
           \<and> final_temp system = Inr T
           \<and> \<bar>T - 70\<bar> < eps"
proof -
  obtain e where e: "error_func1 r' = Inr e" "\<bar>e\<bar> < eps"
    using fsolve_tolerance [OF assms] by blast
  obtain system where run: "run_simulation (make_system 90 r' 300 30) update = Inr system"
    and final: "final_temp system = Inr (22 + (1 - r') ^ 30 * 68)"
    using error_func1_run by blast
  have "e = 22 + (1 - r') ^ 30 * 68 - 70"
    using e(1) run final by (simp add: error_func1_def)
  then have "\<bar>22 + (1 - r') ^ 30 * 68 - 70\<bar> < eps"
    using e(2) by simp
  then show ?thesis
    using run final by blast
qed

theorem fsolve_round_trip_witness:
  "fsolve error_func1 0 (1/50) (1/1000) 40 = Inr (591 / 51200)
   \<and> (\<exists>system T. run_simulation (make_system 90 (591 / 51200) 300 30) update = Inr system
         \<and> final_temp system = Inr T
         \<and> \<bar>T - 70\<bar> < 1/1000)"
proof -
  have solve: "fsolve error_func1 0 (1/50) (1/1000) 40 = Inr (591 / 51200)"
    by (simp add: fsolve_numeral error_func1_eq Let_def power_divide)
  show ?thesis
    using solve fsolve_round_trip [OF solve] by blast
qed

section \<open>Mixing\<close>

text \<open>
  C5: for two systems with equal end times, final temperatures \<open>T1\<close> and \<open>T2\<close> and volumes
  \<open>w1\<close> and \<open>w2\<close> that do not sum to zero, \<open>mix\<close> returns a system whose initial temperature
  is \<open>(w1 * T1 + w2 * T2) / (w1 + w2)\<close> and whose volume is \<open>w1 + w2\<close>; the new system has
  no results yet.
\<close>

theorem mix_weighted_average:
  assumes "t_end s1 = t_end s2"
    and "final_temp s1 = Inr T1" "final_temp s2 = Inr T2"
    and "volume s1 + volume s2 \<noteq> 0"
  shows "\<exists>mixture. mix s1 s2 = Inr mixture
           \<and> temp (init mixture) = (volume s1 * T1 + volume s2 * T2) / (volume s1 + volume s2)
           \<and> volume mixture = volume s1 + volume s2
           \<and> results mixture = None"
  using assms by (simp add: mix_def Let_def make_system_def)

theorem mix_weighted_average_witness:
  "t_end ((make_system 90 (1/100) 300 30)\<lparr>results := Some [(30, \<lparr>temp = 7219/100\<rparr>)]\<rparr>)
     = t_end ((make_system 5 (1/10) 50 30)\<lparr>results := Some [(30, \<lparr>temp = 20\<rparr>)]\<rparr>)
   \<and> final_temp ((make_system 90 (1/100) 300 30)\<lparr>results := Some [(30, \<lparr>temp = 7219/100\<rparr>)]\<rparr>)
       = Inr (7219/100)
   \<and> final_temp ((make_system 5 (1/10) 50 30)\<lparr>results := Some [(30, \<lparr>temp = 20\<rparr>)]\<rparr>)
       = Inr 20
   \<and> volume ((make_system 90 (1/100) 300 30)\<lparr>results := Some [(30, \<lparr>temp = 7219/100\<rparr>)]\<rparr>)
       + volume ((make_system 5 (1/10) 50 30)\<lparr>results := Some [(30, \<lparr>temp = 20\<rparr>)]\<rparr>) \<noteq> 0
   \<and> (\<exists>mixture.
         mix ((make_system 90 (1/100) 300 30)\<lparr>results := Some [(30, \<lparr>temp = 7219/100\<rparr>)]\<rparr>)
             ((make_system 5 (1/10) 50 30)\<lparr>results := Some [(30, \<lparr>temp = 20\<rparr>)]\<rparr>)
           = Inr mixture
         \<and> temp (init mixture) = (300 * (7219/100) + 50 * 20) / 350
         \<and> volume mixture = 350)"
  using mix_weighted_average
          [of "(make_system 90 (1/100) 300 30)\<lparr>results := Some [(30, \<lparr>temp = 7219/100\<rparr>)]\<rparr>"
              "(make_system 5 (1/10) 50 30)\<lparr>results := Some [(30, \<lparr>temp = 20\<rparr>)]\<rparr>"
              "7219/100" 20]
  by (auto simp: make_system_def final_temp_def)

text \<open>
  C6: \<open>mix\<close> fails on its precondition exactly when the end times of its arguments differ.
  The failure is the \<open>AssertionError\<close> of the \<open>assert\<close> in its first line, raised before
  anything is computed; with equal end times \<open>mix\<close> never fails with it.
\<close>

theorem mix_end_times:
  "(mix s1 s2 = Inl AssertionError) = (t_end s1 \<noteq> t_end s2)"
  by (auto simp: mix_def Let_def split: sum.splits dest: final_temp_error)

theorem mix_end_times_witness:
  "mix (make_system 90 (1/100) 300 30) (make_system 5 (1/10) 50 15) = Inl AssertionError
   \<and> mix (make_system 90 (1/100) 300 30) (make_system 5 (1/10) 50 30) \<noteq> Inl AssertionError"
  using mix_end_times [of "make_system 90 (1/100) 300 30" "make_system 5 (1/10) 50 15"]
        mix_end_times [of "make_system 90 (1/100) 300 30" "make_system 5 (1/10) 50 30"]
  by (simp add: make_system_def)

text \<open>
  C10: whenever \<open>mix\<close> returns a mixture, its rate constant is that of the first argument,
  its end time is the default 30 of \<open>make_system\<close> whatever the end times of the arguments
  were, and the rate constant of the second argument plays no part: changing it gives the
  same mixture.
\<close>

theorem mix_rate_and_end_time:
  assumes "mix s1 s2 = Inr mixture"
  shows "r mixture = r s1 \<and> t_end mixture = 30 \<and> mix s1 (s2\<lparr>r := x\<rparr>) = Inr mixture"
  using assms
  by (auto simp: mix_def Let_def final_temp_def make_system_def default_t_end_def
           split: if_splits option.splits sum.splits)

theorem mix_rate_and_end_time_witness:
  "mix (make_system 90 (1/100) 300 15) (make_system 5 (1/10) 50 15)
     = Inr (make_system (545/7) (1/100) 350 30)
   \<and> r (make_system (545/7) (1/100) 350 30) = r (make_system 90 (1/100) 300 15)
   \<and> t_end (make_system (545/7) (1/100) 350 30) = 30
   \<and> mix (make_system 90 (1/100) 300 15) ((make_system 5 (1/10) 50 15)\<lparr>r := 7\<rparr>)
       = Inr (make_system (545/7) (1/100) 350 30)"
proof -
  have m: "mix (make_system 90 (1/100) 300 15) (make_system 5 (1/10) 50 15)
             = Inr (make_system (545/7) (1/100) 350 30)"
    by (simp add: mix_def Let_def final_temp_def make_system_def default_t_end_def)
  show ?thesis
    using m mix_rate_and_end_time [OF m, of 7] by simp
qed

end
